theory Spec2Isabelle
  imports Main
begin

section \<open>JavaScript values\<close>

text \<open>
  The client reads response bodies as untyped data (\<open>data: any\<close>). A parsed JSON body is
  a value of \<open>json\<close>; the result of a property access is a \<open>json option\<close>, where
  \<open>None\<close> is JavaScript's \<open>undefined\<close>. An object is kept as the list of its own
  properties, looked up with \<open>map_of\<close>.
\<close>

datatype json =
    JNull
  | JBool bool
  | JNum int
  | JStr string
  | JArr "json list"
  | JObj "(string \<times> json) list"

text \<open>Truthiness, as \<open>if (v)\<close>, \<open>v || d\<close> and \<open>v ? a : b\<close> test it.\<close>

fun truthy :: "json option \<Rightarrow> bool" where
  "truthy None = False"
| "truthy (Some JNull) = False"
| "truthy (Some (JBool b)) = b"
| "truthy (Some (JNum n)) = (n \<noteq> 0)"
| "truthy (Some (JStr s)) = (s \<noteq> [])"
| "truthy (Some (JArr xs)) = True"
| "truthy (Some (JObj kvs)) = True"

text \<open>
  \<open>getItem\<close> resolves to a string or to \<open>null\<close>; the empty string is falsy like
  \<open>null\<close>.
\<close>

fun truthy_str :: "string option \<Rightarrow> bool" where
  "truthy_str None = False"
| "truthy_str (Some s) = (s \<noteq> [])"

section \<open>Errors (mobile/src/services/api.ts, mobile/src/utils/errorHandler.ts)\<close>

text \<open>
  The interface \<open>ApiError\<close>. Its \<open>message\<close> and \<open>code\<close> are copied from the
  response body, so at run time they hold whatever JSON value the body held there;
  \<open>code\<close> may be \<open>undefined\<close>.
\<close>

record ApiError =
  message :: json
  status :: nat
  code :: "json option"

text \<open>
  What a call of the client can throw: the \<open>ApiError\<close> object built by
  \<open>handleResponse\<close>, the \<open>SyntaxError\<close> of \<open>response.json()\<close> on a body that is
  not JSON, the \<open>TypeError\<close> of a property access on \<open>null\<close>, the rejection of
  \<open>fetch\<close> when no response arrives, and the rejection of a storage call.
\<close>

datatype thrown =
    ApiErr ApiError
  | SyntaxError
  | TypeError
  | NetworkRequestFailed
  | StorageRejected

datatype ErrorType = NETWORK | AUTH | VALIDATION | SERVER | UNKNOWN

record AppError =
  type :: ErrorType
  app_message :: json
  app_code :: "json option"
  originalError :: "thrown option"
  timestamp :: nat

text \<open>\<open>error.message || d\<close>\<close>

definition or_default :: "json \<Rightarrow> string \<Rightarrow> json" where
  "or_default m d = (if truthy (Some m) then m else JStr d)"

text \<open>
  \<open>ErrorHandler.handleApiError\<close>. The \<open>switch\<close> is kept case by case, with its
  \<open>default\<close> branch last; \<open>now\<close> is the clock read by \<open>new Date()\<close>.
\<close>

definition handleApiError :: "nat \<Rightarrow> ApiError \<Rightarrow> AppError" where
  "handleApiError now error =
     (let (ty, msg) =
        (if status error = 400 then
           (VALIDATION, or_default (message error) ''Invalid request. Please check your input.'')
         else if status error = 401 then
           (AUTH, JStr ''Session expired. Please log in again.'')
         else if status error = 403 then
           (AUTH, JStr ''Access denied. You don't have permission for this action.'')
         else if status error = 404 then
           (SERVER, JStr ''The requested resource was not found.'')
         else if status error = 429 then
           (SERVER, JStr ''Too many requests. Please try again later.'')
         else if status error = 500 then
           (SERVER, JStr ''Server error. Please try again later.'')
         else if status error \<ge> 500 then
           (SERVER, JStr ''Server error. Please try again later.'')
         else
           (UNKNOWN, or_default (message error) ''An unexpected error occurred.''))
      in \<lparr>type = ty, app_message = msg, app_code = code error,
           originalError = Some (ApiErr error), timestamp = now\<rparr>)"

definition handleNetworkError :: "nat \<Rightarrow> thrown \<Rightarrow> AppError" where
  "handleNetworkError now error =
     \<lparr>type = NETWORK,
      app_message = JStr ''Network error. Please check your internet connection.'',
      app_code = None, originalError = Some error, timestamp = now\<rparr>"

text \<open>
  \<open>error.originalError?.status\<close>: the status of an \<open>ApiError\<close>, \<open>undefined\<close> for
  anything else.
\<close>

fun original_status :: "thrown option \<Rightarrow> nat option" where
  "original_status (Some (ApiErr e)) = Some (status e)"
| "original_status _ = None"

text \<open>\<open>ErrorHandler.shouldRetry\<close>; \<open>undefined >= 500\<close> is false.\<close>

definition shouldRetry :: "AppError \<Rightarrow> nat \<Rightarrow> bool" where
  "shouldRetry error retryCount =
     (let maxRetries = 3 in
      if retryCount \<ge> maxRetries then False
      else type error = NETWORK \<or>
           (type error = SERVER \<and>
            (case original_status (originalError error) of
               None \<Rightarrow> False
             | Some s \<Rightarrow> s \<ge> 500)))"

definition handleGenericError :: "nat \<Rightarrow> json option \<Rightarrow> thrown \<Rightarrow> AppError" where
  "handleGenericError now error_message error =
     \<lparr>type = UNKNOWN,
      app_message = (if truthy error_message then the error_message
                     else JStr ''An unexpected error occurred.''),
      app_code = None, originalError = Some error, timestamp = now\<rparr>"

section \<open>The API client (mobile/src/services/api.ts)\<close>

subsection \<open>AsyncStorage\<close>

text \<open>
  The credential store is the key-value store \<open>AsyncStorage\<close>, under the keys
  \<open>access_token\<close>, \<open>refresh_token\<close> and \<open>user\<close>. The model takes the store to be
  reliable: a read resolves, and a write of a string resolves. \<open>setItem\<close> takes a string;
  called with a value that is not one (\<open>undefined\<close>, \<open>null\<close>, a number, ...) it is
  taken to reject.
\<close>

type_synonym AsyncStorage = "string \<rightharpoonup> string"

definition getItem :: "AsyncStorage \<Rightarrow> string \<Rightarrow> thrown + string option" where
  "getItem store key = Inr (store key)"

definition setItem :: "AsyncStorage \<Rightarrow> string \<Rightarrow> json option \<Rightarrow> thrown + AsyncStorage" where
  "setItem store key v =
     (case v of Some (JStr s) \<Rightarrow> Inr (store(key \<mapsto> s)) | _ \<Rightarrow> Inl StorageRejected)"

definition multiRemove :: "AsyncStorage \<Rightarrow> string list \<Rightarrow> AsyncStorage" where
  "multiRemove store keys = foldl (\<lambda>m k. m(k := None)) store keys"

subsection \<open>Requests, responses and the network\<close>

type_synonym headers = "(string \<times> string) list"

text \<open>
  The body handed to \<open>fetch\<close>: the value given to \<open>JSON.stringify\<close>, or a
  \<open>FormData\<close>.
\<close>

datatype body = Json json | Form "(string \<times> string) list"

text \<open>
  A request as \<open>fetch\<close> receives it. \<open>req_url\<close> is \<open>baseURL + endpoint\<close>;
  \<open>req_query\<close> holds the entries appended to a \<open>URLSearchParams\<close> when \<open>get\<close> is
  given \<open>params\<close> (their percent-encoding is not modelled).
\<close>

record request =
  req_url :: string
  req_query :: "(string \<times> string) list option"
  req_method :: string
  req_headers :: headers
  req_body :: "body option"

text \<open>
  A \<open>Response\<close>: \<open>content_type\<close> is \<open>headers.get('content-type')\<close>,
  \<open>json_body\<close> what \<open>response.json()\<close> resolves to (\<open>None\<close> when the body is not
  valid JSON and \<open>json()\<close> rejects with a \<open>SyntaxError\<close>), \<open>text_body\<close> what
  \<open>response.text()\<close> resolves to.
\<close>

record response =
  http_status :: nat
  content_type :: "string option"
  json_body :: "json option"
  text_body :: string

definition ok :: "response \<Rightarrow> bool" where
  "ok r = (200 \<le> http_status r \<and> http_status r \<le> 299)"

datatype fetch_result = Rejected | Resp response

text \<open>
  The state a call runs in: the store, and the list of requests handed to \<open>fetch\<close> so
  far. The network is a parameter: \<open>net i req\<close> is what the \<open>i\<close>-th call of
  \<open>fetch\<close> (counted from 0) resolves to when it sends \<open>req\<close>.
\<close>

record state =
  storage :: AsyncStorage
  log :: "request list"

type_synonym network = "nat \<Rightarrow> request \<Rightarrow> fetch_result"

definition fetch :: "network \<Rightarrow> state \<Rightarrow> request \<Rightarrow> fetch_result \<times> state" where
  "fetch net st req = (net (length (log st)) req, st\<lparr>log := log st @ [req]\<rparr>)"

subsection \<open>Helpers of the JavaScript runtime\<close>

text \<open>\<open>s.includes(sub)\<close>\<close>

fun includes_str :: "string \<Rightarrow> string \<Rightarrow> bool" where
  "includes_str [] sub = (sub = [])"
| "includes_str (c # cs) sub = (take (length sub) (c # cs) = sub \<or> includes_str cs sub)"

text \<open>
  \<open>data.k\<close> for the property names the client reads (\<open>message\<close>, \<open>code\<close>,
  \<open>access_token\<close>, \<open>refresh_token\<close>): a \<open>TypeError\<close> on \<open>null\<close>, the property of
  an object, \<open>undefined\<close> on a string, number, boolean or array.
\<close>

fun get_prop :: "json \<Rightarrow> string \<Rightarrow> thrown + json option" where
  "get_prop JNull k = Inl TypeError"
| "get_prop (JObj kvs) k = Inr (map_of kvs k)"
| "get_prop _ k = Inr None"

text \<open>The decimal digits of a number, as a template literal prints it.\<close>

fun show_nat :: "nat \<Rightarrow> string" where
  "show_nat n =
     (if n < 10 then [char_of (48 + n)]
      else show_nat (n div 10) @ [char_of (48 + n mod 10)])"

declare show_nat.simps [simp del]

subsection \<open>The class \<open>ApiClient\<close>\<close>

record ApiResponse =
  data :: json
  res_message :: "json option"
  res_status :: nat

text \<open>
  \<open>Config.API_URL\<close> is read from the environment (\<open>process.env.API_URL\<close>, with
  \<open>http://localhost:8000\<close> as its default); the constructor takes it as its
  argument.
\<close>

record ApiClient =
  baseURL :: string
  defaultHeaders :: headers

definition new_ApiClient :: "string \<Rightarrow> ApiClient" where
  "new_ApiClient api_url =
     \<lparr>baseURL = api_url,
      defaultHeaders = [(''Content-Type'', ''application/json''),
                        (''Accept'', ''application/json'')]\<rparr>"

text \<open>
  \<open>{...h, k: v}\<close> and \<open>h[k] = v\<close>: the property keeps its place when it exists and
  is added last otherwise.
\<close>

fun set_header :: "string \<Rightarrow> string \<Rightarrow> headers \<Rightarrow> headers" where
  "set_header k v [] = [(k, v)]"
| "set_header k v ((k', v') # hs) =
     (if k = k' then (k, v) # hs else (k', v') # set_header k v hs)"

text \<open>
  \<open>getAuthHeaders\<close>. The \<open>catch\<close> branch answers a rejected storage read with the
  default headers.
\<close>

definition getAuthHeaders :: "ApiClient \<Rightarrow> state \<Rightarrow> headers" where
  "getAuthHeaders this st =
     (case getItem (storage st) ''access_token'' of
        Inr token \<Rightarrow>
          (if truthy_str token
           then set_header ''Authorization'' (''Bearer '' @ the token) (defaultHeaders this)
           else defaultHeaders this)
      | Inl error \<Rightarrow> defaultHeaders this)"

definition credential_keys :: "string list" where
  "credential_keys = [''access_token'', ''refresh_token'', ''user'']"

definition refresh_request :: "ApiClient \<Rightarrow> string \<Rightarrow> request" where
  "refresh_request this refreshToken =
     \<lparr>req_url = baseURL this @ ''/api/v1/auth/refresh'',
      req_query = None,
      req_method = ''POST'',
      req_headers = defaultHeaders this,
      req_body = Some (Json (JObj [(''refresh_token'', JStr refreshToken)]))\<rparr>"

text \<open>
  The \<open>try\<close> block of \<open>handleTokenExpiration\<close>. It returns what it threw, if
  anything, with the state reached at that point: a write made before the exception
  stays made.
\<close>

definition try_refresh :: "ApiClient \<Rightarrow> network \<Rightarrow> state \<Rightarrow> thrown option \<times> state" where
  "try_refresh this net st =
     (case getItem (storage st) ''refresh_token'' of
        Inl error \<Rightarrow> (Some error, st)
      | Inr refreshToken \<Rightarrow>
          if truthy_str refreshToken then
            (case fetch net st (refresh_request this (the refreshToken)) of
               (Rejected, st1) \<Rightarrow> (Some NetworkRequestFailed, st1)
             | (Resp response, st1) \<Rightarrow>
                 if ok response then
                   (case json_body response of
                      None \<Rightarrow> (Some SyntaxError, st1)
                    | Some d \<Rightarrow>
                        (case get_prop d ''access_token'' of
                           Inl error \<Rightarrow> (Some error, st1)
                         | Inr access \<Rightarrow>
                             (case setItem (storage st1) ''access_token'' access of
                                Inl error \<Rightarrow> (Some error, st1)
                              | Inr store2 \<Rightarrow>
                                  (case get_prop d ''refresh_token'' of
                                     Inl error \<Rightarrow> (Some error, st1\<lparr>storage := store2\<rparr>)
                                   | Inr rotated \<Rightarrow>
                                       if truthy rotated then
                                         (case setItem store2 ''refresh_token'' rotated of
                                            Inl error \<Rightarrow> (Some error, st1\<lparr>storage := store2\<rparr>)
                                          | Inr store3 \<Rightarrow> (None, st1\<lparr>storage := store3\<rparr>))
                                       else (None, st1\<lparr>storage := store2\<rparr>)))))
                 else (None, st1\<lparr>storage := multiRemove (storage st1) credential_keys\<rparr>))
          else (None, st))"

text \<open>\<open>handleTokenExpiration\<close>: the \<open>try\<close> block, then the \<open>catch\<close>.\<close>

definition handleTokenExpiration :: "ApiClient \<Rightarrow> network \<Rightarrow> state \<Rightarrow> state" where
  "handleTokenExpiration this net st =
     (case try_refresh this net st of
        (None, st') \<Rightarrow> st'
      | (Some error, st') \<Rightarrow> st'\<lparr>storage := multiRemove (storage st') credential_keys\<rparr>)"

text \<open>The first statement of \<open>handleResponse\<close>: the body, read by content type.\<close>

definition read_body :: "response \<Rightarrow> thrown + json" where
  "read_body response =
     (if truthy_str (content_type response) \<and>
         includes_str (the (content_type response)) ''application/json''
      then (case json_body response of None \<Rightarrow> Inl SyntaxError | Some d \<Rightarrow> Inr d)
      else Inr (JStr (text_body response)))"

text \<open>
  The \<open>ApiError\<close> object that \<open>handleResponse\<close> builds for a response that is not
  ok. Reading a property of \<open>null\<close> throws.
\<close>

definition make_error :: "response \<Rightarrow> json \<Rightarrow> thrown + ApiError" where
  "make_error response d =
     (case get_prop d ''message'' of
        Inl thrown \<Rightarrow> Inl thrown
      | Inr m \<Rightarrow>
          (case get_prop d ''code'' of
             Inl thrown \<Rightarrow> Inl thrown
           | Inr c \<Rightarrow>
               Inr \<lparr>message =
                      (if truthy m then the m
                       else JStr (''HTTP error! status: '' @ show_nat (http_status response))),
                    status = http_status response,
                    code = c\<rparr>))"

text \<open>
  \<open>handleResponse\<close>. A thrown value is the left summand; the state is returned with
  it, since the refresh has run by the time the error is thrown.
\<close>

definition handleResponse ::
  "ApiClient \<Rightarrow> network \<Rightarrow> state \<Rightarrow> response \<Rightarrow> (thrown + ApiResponse) \<times> state" where
  "handleResponse this net st response =
     (case read_body response of
        Inl thrown \<Rightarrow> (Inl thrown, st)
      | Inr d \<Rightarrow>
          if \<not> ok response then
            (case make_error response d of
               Inl thrown \<Rightarrow> (Inl thrown, st)
             | Inr error \<Rightarrow>
                 (Inl (ApiErr error),
                  if http_status response = 401
                  then handleTokenExpiration this net st else st))
          else
            (case get_prop d ''message'' of
               Inl thrown \<Rightarrow> (Inl thrown, st)
             | Inr m \<Rightarrow>
                 (Inr \<lparr>data = d, res_message = m, res_status = http_status response\<rparr>, st)))"

text \<open>
  Every method ends the same way: \<open>await fetch(...)\<close>, then \<open>handleResponse\<close>.
  \<open>resume\<close> is what the method does once the \<open>fetch\<close> has settled; a rejected
  \<open>fetch\<close> rejects the call.
\<close>

definition resume ::
  "ApiClient \<Rightarrow> network \<Rightarrow> state \<Rightarrow> fetch_result \<Rightarrow> (thrown + ApiResponse) \<times> state" where
  "resume this net st settled =
     (case settled of
        Rejected \<Rightarrow> (Inl NetworkRequestFailed, st)
      | Resp response \<Rightarrow> handleResponse this net st response)"

definition fetch_then_handle ::
  "ApiClient \<Rightarrow> network \<Rightarrow> state \<Rightarrow> request \<Rightarrow> (thrown + ApiResponse) \<times> state" where
  "fetch_then_handle this net st req =
     (case fetch net st req of (settled, st1) \<Rightarrow> resume this net st1 settled)"

text \<open>
  \<open>get\<close>. A parameter whose value is \<open>undefined\<close> or \<open>null\<close> is \<open>None\<close> and is
  left out; any other is given by its \<open>String(value)\<close>.
\<close>

definition search_params :: "(string \<times> string option) list \<Rightarrow> (string \<times> string) list" where
  "search_params params =
     concat (map (\<lambda>(key, v). case v of None \<Rightarrow> [] | Some s \<Rightarrow> [(key, s)]) params)"

definition get_request ::
  "ApiClient \<Rightarrow> state \<Rightarrow> string \<Rightarrow> (string \<times> string option) list option \<Rightarrow> request" where
  "get_request this st endpoint params =
     \<lparr>req_url = baseURL this @ endpoint,
      req_query = map_option search_params params,
      req_method = ''GET'',
      req_headers = getAuthHeaders this st,
      req_body = None\<rparr>"

definition get ::
  "ApiClient \<Rightarrow> network \<Rightarrow> state \<Rightarrow> string \<Rightarrow> (string \<times> string option) list option
     \<Rightarrow> (thrown + ApiResponse) \<times> state" where
  "get this net st endpoint params =
     fetch_then_handle this net st (get_request this st endpoint params)"

text \<open>
  \<open>post\<close>, \<open>put\<close> and \<open>patch\<close> differ in the method only;
  \<open>data ? JSON.stringify(data) : undefined\<close> is the body.
\<close>

definition write_request :: "string \<Rightarrow> ApiClient \<Rightarrow> state \<Rightarrow> string \<Rightarrow> json option \<Rightarrow> request" where
  "write_request method this st endpoint d =
     \<lparr>req_url = baseURL this @ endpoint,
      req_query = None,
      req_method = method,
      req_headers = getAuthHeaders this st,
      req_body = (if truthy d then Some (Json (the d)) else None)\<rparr>"

definition post ::
  "ApiClient \<Rightarrow> network \<Rightarrow> state \<Rightarrow> string \<Rightarrow> json option \<Rightarrow> (thrown + ApiResponse) \<times> state" where
  "post this net st endpoint d =
     fetch_then_handle this net st (write_request ''POST'' this st endpoint d)"

definition put ::
  "ApiClient \<Rightarrow> network \<Rightarrow> state \<Rightarrow> string \<Rightarrow> json option \<Rightarrow> (thrown + ApiResponse) \<times> state" where
  "put this net st endpoint d =
     fetch_then_handle this net st (write_request ''PUT'' this st endpoint d)"

definition patch ::
  "ApiClient \<Rightarrow> network \<Rightarrow> state \<Rightarrow> string \<Rightarrow> json option \<Rightarrow> (thrown + ApiResponse) \<times> state" where
  "patch this net st endpoint d =
     fetch_then_handle this net st (write_request ''PATCH'' this st endpoint d)"

definition delete_request :: "ApiClient \<Rightarrow> state \<Rightarrow> string \<Rightarrow> request" where
  "delete_request this st endpoint =
     \<lparr>req_url = baseURL this @ endpoint,
      req_query = None,
      req_method = ''DELETE'',
      req_headers = getAuthHeaders this st,
      req_body = None\<rparr>"

definition delete ::
  "ApiClient \<Rightarrow> network \<Rightarrow> state \<Rightarrow> string \<Rightarrow> (thrown + ApiResponse) \<times> state" where
  "delete this net st endpoint =
     fetch_then_handle this net st (delete_request this st endpoint)"

text \<open>
  \<open>upload\<close> builds its headers itself; its storage read is outside any \<open>try\<close>, so
  a rejected read rejects the call before anything is sent.
\<close>

definition upload_headers :: "string option \<Rightarrow> headers" where
  "upload_headers token =
     (if truthy_str token
      then set_header ''Authorization'' (''Bearer '' @ the token) [(''Accept'', ''application/json'')]
      else [(''Accept'', ''application/json'')])"

definition upload ::
  "ApiClient \<Rightarrow> network \<Rightarrow> state \<Rightarrow> string \<Rightarrow> (string \<times> string) list
     \<Rightarrow> (thrown + ApiResponse) \<times> state" where
  "upload this net st endpoint formData =
     (case getItem (storage st) ''access_token'' of
        Inl error \<Rightarrow> (Inl error, st)
      | Inr token \<Rightarrow>
          fetch_then_handle this net st
            \<lparr>req_url = baseURL this @ endpoint,
             req_query = None,
             req_method = ''POST'',
             req_headers = upload_headers token,
             req_body = Some (Form formData)\<rparr>)"

section \<open>The query layer (mobile/src/App.tsx, frontend/web/src/App.tsx)\<close>

text \<open>
  Both applications build their \<open>QueryClient\<close> from the same default options. The
  options are in the sources; the library that reads them is not.
\<close>

record MutationOptions =
  retry :: nat

record QueryOptions = MutationOptions +
  staleTime :: nat
  cacheTime :: nat
  refetchOnWindowFocus :: bool

definition retryDelay :: "nat \<Rightarrow> nat" where
  "retryDelay attemptIndex = min (1000 * 2 ^ attemptIndex) 30000"

definition queries :: QueryOptions where
  "queries = \<lparr>retry = 3, staleTime = 5 * 60 * 1000, cacheTime = 10 * 60 * 1000,
              refetchOnWindowFocus = False\<rparr>"

definition mutations :: MutationOptions where
  "mutations = \<lparr>retry = 1\<rparr>"

text \<open>
  Modelled from the spec: the retry loop of the Resilient Query Layer (spec section 4.5).
  The loop belongs to the query library, whose code is not among the sources; only its
  configuration above is. The spec's words: on a retryable classified error, retry up to
  \<open>maxRetries\<close> times; an error that is not retryable is surfaced at once.
  \<open>fetcher\<close> is one attempt of the request, run on the state the attempt before left;
  \<open>attempt\<close> counts the attempts already made. The result is the number of attempts
  made, the outcome of the last one, and the state it left.
\<close>

function run_attempts ::
  "('e \<Rightarrow> bool) \<Rightarrow> nat \<Rightarrow> ('s \<Rightarrow> ('e + 'a) \<times> 's) \<Rightarrow> nat \<Rightarrow> 's \<Rightarrow> nat \<times> ('e + 'a) \<times> 's" where
  "run_attempts retryable maxRetries fetcher attempt st =
     (case fetcher st of
        (Inr v, st') \<Rightarrow> (Suc attempt, Inr v, st')
      | (Inl e, st') \<Rightarrow>
          if retryable e \<and> attempt < maxRetries
          then run_attempts retryable maxRetries fetcher (Suc attempt) st'
          else (Suc attempt, Inl e, st'))"
  by pat_completeness auto
termination
  by (relation "measure (\<lambda>(retryable, maxRetries, fetcher, attempt, st). maxRetries - attempt)")
     auto

declare run_attempts.simps [simp del]

text \<open>
  Modelled from the spec: \<open>query(key, fetcher, config)\<close> of spec section 4.5, as far as
  its retries go (the cache is left out), run with the options the sources give it. The
  options hold \<open>retry\<close> as a number and nothing else about retries: no retry predicate
  is handed to the library, and \<open>ErrorHandler.shouldRetry\<close> has no caller. So no
  classification reaches the loop, every failure counts as retryable, and the number
  alone bounds the retries.
\<close>

definition query ::
  "QueryOptions \<Rightarrow> ('s \<Rightarrow> ('e + 'a) \<times> 's) \<Rightarrow> 's \<Rightarrow> nat \<times> ('e + 'a) \<times> 's" where
  "query options fetcher st = run_attempts (\<lambda>e. True) (retry options) fetcher 0 st"

text \<open>
  Modelled from the spec: \<open>mutate(key, fetcher)\<close> of spec section 4.5, as far as its
  retries go. A mutation retries up to the \<open>retry\<close> of the \<open>mutations\<close> options.
\<close>

definition mutate ::
  "('e \<Rightarrow> bool) \<Rightarrow> ('s \<Rightarrow> ('e + 'a) \<times> 's) \<Rightarrow> 's \<Rightarrow> nat \<times> ('e + 'a) \<times> 's" where
  "mutate retryable fetcher st = run_attempts retryable (retry mutations) fetcher 0 st"

section \<open>Calls in flight together\<close>

text \<open>
  JavaScript runs one continuation at a time, and a call gives way at each \<open>await\<close>.
  When several calls are in flight together, each has sent its request before the
  response of any of them is handled. \<open>send_all\<close> sends the requests in turn;
  \<open>resume_all\<close> then runs the calls' continuations, one after the other, in the order
  the responses arrive.
\<close>

fun send_all :: "network \<Rightarrow> state \<Rightarrow> request list \<Rightarrow> fetch_result list \<times> state" where
  "send_all net st [] = ([], st)"
| "send_all net st (req # reqs) =
     (case fetch net st req of
        (settled, st1) \<Rightarrow>
          (case send_all net st1 reqs of (rest, st2) \<Rightarrow> (settled # rest, st2)))"

fun resume_all ::
  "ApiClient \<Rightarrow> network \<Rightarrow> state \<Rightarrow> fetch_result list
     \<Rightarrow> (thrown + ApiResponse) list \<times> state" where
  "resume_all this net st [] = ([], st)"
| "resume_all this net st (settled # rest) =
     (case resume this net st settled of
        (outcome, st1) \<Rightarrow>
          (case resume_all this net st1 rest of (outcomes, st2) \<Rightarrow> (outcome # outcomes, st2)))"

definition in_flight_together ::
  "ApiClient \<Rightarrow> network \<Rightarrow> state \<Rightarrow> request list \<Rightarrow> (thrown + ApiResponse) list \<times> state" where
  "in_flight_together this net st reqs =
     (case send_all net st reqs of (settled, st1) \<Rightarrow> resume_all this net st1 settled)"

section \<open>Vocabulary of the properties\<close>

text \<open>The \<open>Authorization\<close> header of a request, if it has one.\<close>

definition authorization :: "request \<Rightarrow> string option" where
  "authorization req = map_of (req_headers req) ''Authorization''"

text \<open>A call of the refresh endpoint, and how many of them a log holds.\<close>

definition is_refresh_call :: "ApiClient \<Rightarrow> request \<Rightarrow> bool" where
  "is_refresh_call this req =
     (req_url req = baseURL this @ ''/api/v1/auth/refresh'' \<and> req_method req = ''POST'')"

definition refresh_calls :: "ApiClient \<Rightarrow> request list \<Rightarrow> nat" where
  "refresh_calls this requests = length (filter (is_refresh_call this) requests)"

text \<open>
  The tokens a settled refresh call grants: the endpoint answers ok with a JSON object
  whose \<open>access_token\<close> is a string and whose \<open>refresh_token\<close> is falsy (no rotation)
  or a string. \<open>None\<close> is a failed refresh: \<open>fetch\<close> rejected, the status is not ok,
  the body is not JSON, or it does not hold the tokens.
\<close>

fun granted :: "fetch_result \<Rightarrow> (string \<times> string option) option" where
  "granted Rejected = None"
| "granted (Resp r) =
     (if ok r then
        (case json_body r of
           Some (JObj kvs) \<Rightarrow>
             (case map_of kvs ''access_token'' of
                Some (JStr access) \<Rightarrow>
                  (if truthy (map_of kvs ''refresh_token'') then
                     (case map_of kvs ''refresh_token'' of
                        Some (JStr rotated) \<Rightarrow> Some (access, Some rotated)
                      | _ \<Rightarrow> None)
                   else Some (access, None))
              | _ \<Rightarrow> None)
         | _ \<Rightarrow> None)
      else None)"

text \<open>
  A settled \<open>fetch\<close> that brought a 401 response from which \<open>handleResponse\<close> builds
  its \<open>ApiError\<close>.
\<close>

fun received_401 :: "fetch_result \<Rightarrow> bool" where
  "received_401 Rejected = False"
| "received_401 (Resp r) =
     (http_status r = 401 \<and>
      (case read_body r of
         Inl thrown \<Rightarrow> False
       | Inr d \<Rightarrow> (case make_error r d of Inl thrown \<Rightarrow> False | Inr e \<Rightarrow> True)))"

fun is_401_error :: "thrown + ApiResponse \<Rightarrow> bool" where
  "is_401_error (Inl (ApiErr e)) = (status e = 401)"
| "is_401_error _ = False"

section \<open>Scenarios\<close>

definition example_client :: ApiClient where
  "example_client = new_ApiClient ''https://api.mintflow.com''"

definition signed_in :: state where
  "signed_in = \<lparr>storage = [''access_token'' \<mapsto> ''T1'', ''refresh_token'' \<mapsto> ''R1''], log = []\<rparr>"

definition no_refresh_token :: state where
  "no_refresh_token = \<lparr>storage = [''access_token'' \<mapsto> ''T1''], log = []\<rparr>"

definition unauthorized :: response where
  \<open>unauthorized =
     \<lparr>http_status = 401, content_type = Some ''application/json'',
      json_body = Some (JObj [(''message'', JStr ''Token expired'')]),
      text_body = ''{"message":"Token expired"}''\<rparr>\<close>

definition accounts_ok :: response where
  \<open>accounts_ok =
     \<lparr>http_status = 200, content_type = Some ''application/json'',
      json_body = Some (JObj [(''accounts'', JArr [])]),
      text_body = ''{"accounts":[]}''\<rparr>\<close>

definition refresh_ok :: "string \<Rightarrow> response" where
  \<open>refresh_ok token =
     \<lparr>http_status = 200, content_type = Some ''application/json'',
      json_body = Some (JObj [(''access_token'', JStr token)]),
      text_body = ''{"access_token":"'' @ token @ ''"}''\<rparr>\<close>

definition malformed :: "nat \<Rightarrow> response" where
  \<open>malformed s =
     \<lparr>http_status = s, content_type = Some ''application/json'',
      json_body = None,
      text_body = ''<html>Bad Gateway</html>''\<rparr>\<close>

definition bad_request :: ApiError where
  "bad_request = \<lparr>message = JStr ''Bad Request'', status = 400, code = None\<rparr>"

definition too_many_requests :: ApiError where
  "too_many_requests = \<lparr>message = JStr ''Too Many Requests'', status = 429, code = None\<rparr>"

definition status_600 :: ApiError where
  "status_600 = \<lparr>message = JStr ''Unassigned'', status = 600, code = None\<rparr>"

text \<open>A query function whose every attempt fails with the same error.\<close>

definition always_failing :: "'e \<Rightarrow> nat \<Rightarrow> ('e + ApiResponse) \<times> nat" where
  "always_failing e n = (Inl e, Suc n)"

text \<open>
  A server that accepts the token \<open>T2\<close> only, and whose refresh endpoint grants
  \<open>T2\<close>.
\<close>

definition expired_server :: network where
  "expired_server i req =
     (if is_refresh_call example_client req then Resp (refresh_ok ''T2'')
      else if map_of (req_headers req) ''Authorization'' = Some ''Bearer T2''
      then Resp accounts_ok
      else Resp unauthorized)"

text \<open>Two calls of \<open>get\<close> made by a signed-in client before either response arrives.\<close>

definition two_requests :: "request list" where
  "two_requests =
     [get_request example_client signed_in ''/accounts'' None,
      get_request example_client signed_in ''/transactions'' None]"

text \<open>A server that answers every call, the refresh too, with 401.\<close>

definition rejecting_server :: network where
  "rejecting_server i req = Resp unauthorized"

text \<open>A server whose refresh endpoint grants the empty string as access token.\<close>

definition empty_token_server :: network where
  "empty_token_server i req =
     (if is_refresh_call example_client req then Resp (refresh_ok []) else Resp unauthorized)"

section \<open>The retry bound of the query layer\<close>

lemma run_attempts_upper:
  "attempt \<le> maxRetries \<Longrightarrow>
     fst (run_attempts retryable maxRetries fetcher attempt st) \<le> Suc maxRetries"
proof (induction retryable maxRetries fetcher attempt st rule: run_attempts.induct)
  case (1 retryable maxRetries fetcher attempt st)
  obtain r st' where f: "fetcher st = (r, st')"
    by (cases "fetcher st")
  show ?case
  proof (cases r)
    case (Inr v)
    with f "1.prems" show ?thesis
      by (simp add: run_attempts.simps [of retryable maxRetries fetcher attempt st])
  next
    case (Inl e)
    show ?thesis
    proof (cases "retryable e \<and> attempt < maxRetries")
      case True
      then have "fst (run_attempts retryable maxRetries fetcher (Suc attempt) st') \<le> Suc maxRetries"
        using "1.IH" f [symmetric] Inl by auto
      with True f Inl show ?thesis
        by (simp add: run_attempts.simps [of retryable maxRetries fetcher attempt st])
    next
      case False
      with f Inl "1.prems" show ?thesis
        by (auto simp add: run_attempts.simps [of retryable maxRetries fetcher attempt st])
    qed
  qed
qed


lemma run_attempts_stops:
  "fetcher st = (Inl e, st') \<Longrightarrow> \<not> retryable e \<Longrightarrow>
     run_attempts retryable maxRetries fetcher attempt st = (Suc attempt, Inl e, st')"
  by (simp add: run_attempts.simps [of retryable maxRetries fetcher attempt st])

section \<open>Facts about the client\<close>

lemma handleTokenExpiration_idle:
  "\<not> truthy_str (storage st ''refresh_token'') \<Longrightarrow> handleTokenExpiration this net st = st"
  by (simp add: handleTokenExpiration_def try_refresh_def getItem_def)

lemma handleTokenExpiration_granted:
  assumes "storage st ''refresh_token'' = Some rt" and "rt \<noteq> []"
    and "granted (net (length (log st)) (refresh_request this rt)) = Some (access, rotated)"
  shows "handleTokenExpiration this net st =
           \<lparr>storage =
              (case rotated of
                 None \<Rightarrow> (storage st)(''access_token'' \<mapsto> access)
               | Some r \<Rightarrow> (storage st)(''access_token'' \<mapsto> access, ''refresh_token'' \<mapsto> r)),
            log = log st @ [refresh_request this rt]\<rparr>"
proof (cases "net (length (log st)) (refresh_request this rt)")
  case Rejected
  with assms show ?thesis by simp
next
  case (Resp r)
  with assms obtain kvs where "ok r" and "json_body r = Some (JObj kvs)"
    by (auto split: if_splits option.splits json.splits)
  with Resp assms show ?thesis
    by (auto simp add: handleTokenExpiration_def try_refresh_def getItem_def fetch_def
               setItem_def
             split: option.splits json.splits if_splits)
qed

lemma handleTokenExpiration_failed:
  assumes "storage st ''refresh_token'' = Some rt" and "rt \<noteq> []"
    and "granted (net (length (log st)) (refresh_request this rt)) = None"
  shows "handleTokenExpiration this net st =
           \<lparr>storage = multiRemove (storage st) credential_keys,
            log = log st @ [refresh_request this rt]\<rparr>"
proof (cases "net (length (log st)) (refresh_request this rt)")
  case Rejected
  with assms show ?thesis
    by (simp add: handleTokenExpiration_def try_refresh_def getItem_def fetch_def)
next
  case (Resp r)
  show ?thesis
  proof (cases "ok r")
    case False
    with Resp assms show ?thesis
      by (simp add: handleTokenExpiration_def try_refresh_def getItem_def fetch_def)
  next
    case True
    note okr = this
    show ?thesis
    proof (cases "json_body r")
      case None
      with okr Resp assms show ?thesis
        by (simp add: handleTokenExpiration_def try_refresh_def getItem_def fetch_def)
    next
      case (Some d)
      with okr Resp assms show ?thesis
        by (cases d)
           (auto simp add: handleTokenExpiration_def try_refresh_def getItem_def fetch_def
                   setItem_def multiRemove_def credential_keys_def
                 split: option.splits json.splits if_splits)
    qed
  qed
qed

lemma make_error_status: "make_error response d = Inr e \<Longrightarrow> status e = http_status response"
  by (auto simp add: make_error_def split: sum.splits)

lemma not_ok_401: "http_status response = 401 \<Longrightarrow> \<not> ok response"
  by (simp add: ok_def)

lemma handleResponse_401:
  assumes "http_status response = 401" and "read_body response = Inr d"
    and "make_error response d = Inr e"
  shows "handleResponse this net st response =
           (Inl (ApiErr e), handleTokenExpiration this net st)"
  using assms by (simp add: handleResponse_def not_ok_401)

lemma refresh_attempt_iff:
  "log (snd (handleResponse this net st response)) \<noteq> log st \<longleftrightarrow>
     http_status response = 401 \<and>
     (\<exists>d e. read_body response = Inr d \<and> make_error response d = Inr e) \<and>
     truthy_str (storage st ''refresh_token'')"
proof (cases "truthy_str (storage st ''refresh_token'')")
  case False
  then show ?thesis
    by (auto simp add: handleResponse_def handleTokenExpiration_idle split: sum.splits)
next
  case True
  then obtain rt where rt: "storage st ''refresh_token'' = Some rt" "rt \<noteq> []"
    by (cases "storage st ''refresh_token''") auto
  have "log (handleTokenExpiration this net st) = log st @ [refresh_request this rt]"
  proof (cases "granted (net (length (log st)) (refresh_request this rt))")
    case None
    with rt show ?thesis by (simp add: handleTokenExpiration_failed)
  next
    case (Some g)
    with rt show ?thesis
      by (cases g) (simp add: handleTokenExpiration_granted)
  qed
  with True show ?thesis
    by (auto simp add: handleResponse_def not_ok_401 split: sum.splits)
qed

lemma send_all_state:
  "snd (send_all net st reqs) = st\<lparr>log := log st @ reqs\<rparr>"
  by (induction reqs arbitrary: st) (simp_all add: fetch_def case_prod_unfold)

lemma granted_rotated_nonempty:
  "granted x = Some (access, Some r) \<Longrightarrow> r \<noteq> []"
  by (cases x) (auto split: if_splits option.splits json.splits)

lemma is_refresh_call_refresh_request:
  "is_refresh_call this (refresh_request this rt)"
  by (simp add: is_refresh_call_def refresh_request_def)

lemma resume_401:
  assumes "received_401 settled"
    and "storage st ''refresh_token'' = Some rt" and "rt \<noteq> []"
    and "granted (net (length (log st)) (refresh_request this rt)) = Some (access, rotated)"
  shows "is_401_error (fst (resume this net st settled)) \<and>
         truthy_str (storage (snd (resume this net st settled)) ''refresh_token'') \<and>
         log (snd (resume this net st settled)) = log st @ [refresh_request this rt]"
proof -
  from assms(1) obtain r d e where s: "settled = Resp r" and r: "http_status r = 401"
      "read_body r = Inr d" "make_error r d = Inr e"
    by (cases settled) (auto split: sum.splits)
  have "resume this net st settled = (Inl (ApiErr e), handleTokenExpiration this net st)"
    using s r by (simp add: resume_def handleResponse_401)
  moreover have "status e = 401"
    using r by (simp add: make_error_status)
  moreover have "handleTokenExpiration this net st =
           \<lparr>storage =
              (case rotated of
                 None \<Rightarrow> (storage st)(''access_token'' \<mapsto> access)
               | Some r \<Rightarrow> (storage st)(''access_token'' \<mapsto> access, ''refresh_token'' \<mapsto> r)),
            log = log st @ [refresh_request this rt]\<rparr>"
    using assms(2-4) by (rule handleTokenExpiration_granted)
  ultimately show ?thesis
    using assms(2-4) by (cases rotated) (auto dest: granted_rotated_nonempty)
qed


lemma resume_all_refreshes:
  assumes "\<forall>i rt. granted (net i (refresh_request this rt)) \<noteq> None"
  shows "list_all received_401 settled \<Longrightarrow> truthy_str (storage st ''refresh_token'') \<Longrightarrow>
         refresh_calls this (log (snd (resume_all this net st settled))) =
           refresh_calls this (log st) + length settled \<and>
         list_all is_401_error (fst (resume_all this net st settled))"
proof (induction settled arbitrary: st)
  case Nil
  then show ?case by simp
next
  case (Cons s rest)
  from Cons.prems(2) obtain rt where rt: "storage st ''refresh_token'' = Some rt" "rt \<noteq> []"
    by (cases "storage st ''refresh_token''") auto
  from assms obtain access rotated
    where g: "granted (net (length (log st)) (refresh_request this rt)) = Some (access, rotated)"
    by (metis option.exhaust surj_pair)
  from Cons.prems(1) have s: "received_401 s" and rest: "list_all received_401 rest"
    by simp_all
  let ?st1 = "snd (resume this net st s)"
  from resume_401 [of s st rt net this access rotated] s rt g
  have step: "is_401_error (fst (resume this net st s))"
      "truthy_str (storage ?st1 ''refresh_token'')"
      "log ?st1 = log st @ [refresh_request this rt]"
    by simp_all
  from Cons.IH [OF rest step(2)]
  have "refresh_calls this (log (snd (resume_all this net ?st1 rest))) =
          refresh_calls this (log ?st1) + length rest"
    and "list_all is_401_error (fst (resume_all this net ?st1 rest))"
    by simp_all
  with step show ?case
    by (simp add: case_prod_unfold refresh_calls_def is_refresh_call_refresh_request)
qed

section \<open>The error classifier\<close>

text \<open>
  Claim C3, as amended. Every failure with HTTP status 429 is classified as a
  \<open>SERVER\<close> error, and \<open>shouldRetry\<close> answers false for it at every retry count:
  it retries a \<open>SERVER\<close> error only when the status is 500 or more.
\<close>

theorem rate_limit_not_retried:
  "status e = 429 \<Longrightarrow>
     type (handleApiError now e) = SERVER \<and> \<not> shouldRetry (handleApiError now e) retryCount"
  by (simp add: handleApiError_def shouldRetry_def)

theorem rate_limit_not_retried_witness:
  "status too_many_requests = 429 \<and>
   type (handleApiError 0 too_many_requests) = SERVER \<and>
   \<not> shouldRetry (handleApiError 0 too_many_requests) 1"
  using rate_limit_not_retried [of too_many_requests 0 1]
  by (simp add: too_many_requests_def)

text \<open>
  Claim C3 as stated asks for a retry of a 429 below the retry limit. At retry count 0
  the answer is no.
\<close>

theorem rate_limit_retry_counterexample:
  "\<not> shouldRetry (handleApiError 0 too_many_requests) 0"
  by (simp add: handleApiError_def shouldRetry_def too_many_requests_def)

text \<open>
  Claim C5, as amended. The classifier maps status 400 to \<open>VALIDATION\<close>, 401 and 403 to
  \<open>AUTH\<close>, 404, 429 and every status from 500 upwards to \<open>SERVER\<close>, and any other
  status to \<open>UNKNOWN\<close>; a transport failure, which has no response, is classified
  \<open>NETWORK\<close> by \<open>handleNetworkError\<close>.
\<close>

theorem classifier_table:
  "type (handleApiError now e) =
     (if status e = 400 then VALIDATION
      else if status e = 401 \<or> status e = 403 then AUTH
      else if status e = 404 \<or> status e = 429 \<or> 500 \<le> status e then SERVER
      else UNKNOWN) \<and>
   type (handleNetworkError now x) = NETWORK"
  by (simp add: handleApiError_def handleNetworkError_def)

theorem classifier_table_witness:
  "type (handleApiError 0 bad_request) = VALIDATION \<and>
   type (handleApiError 0 status_600) = SERVER \<and>
   type (handleNetworkError 0 NetworkRequestFailed) = NETWORK"
  using classifier_table [of 0 bad_request NetworkRequestFailed]
        classifier_table [of 0 status_600 NetworkRequestFailed]
  by (simp add: bad_request_def status_600_def)

text \<open>
  Claim C5 as stated sends every status outside 500-599 that it does not list to
  \<open>UNKNOWN\<close>. Status 600 is such a status, and the \<open>default\<close> branch of the
  \<open>switch\<close> classifies it \<open>SERVER\<close>.
\<close>

theorem status_600_counterexample:
  "type (handleApiError 0 status_600) = SERVER"
  by (simp add: handleApiError_def status_600_def)

section \<open>Retries of the query layer\<close>




text \<open>
  The scenario of the spec: the transport fails three times in a row on a query with
  \<open>maxRetries = 2\<close>; the caller receives the failure after the third attempt.
\<close>

lemma three_timeouts:
  "query (queries\<lparr>retry := 2\<rparr>) (always_failing NetworkRequestFailed) 0 =
     (3, Inl NetworkRequestFailed, 3)"
  by (simp add: query_def queries_def run_attempts.simps always_failing_def)

text \<open>
  Claim C9. The mutation options of both applications set \<open>retry\<close> to 1, and a mutation
  makes at most two attempts, that is at most one retry, whatever its attempts return and
  however its failures are classified.
\<close>

theorem mutation_retried_at_most_once:
  "retry mutations = 1 \<and> fst (mutate retryable fetcher st) \<le> Suc (retry mutations)"
  using run_attempts_upper [of 0 "retry mutations" retryable fetcher st]
  by (simp add: mutate_def mutations_def)

theorem mutation_retried_at_most_once_witness:
  "retry mutations = 1 \<and>
   fst (mutate (\<lambda>e. True) (always_failing NetworkRequestFailed) 0) \<le> Suc (retry mutations)"
  using mutation_retried_at_most_once [of "\<lambda>e. True" "always_failing NetworkRequestFailed" 0]
  by simp

lemma mutation_two_attempts:
  "mutate (\<lambda>e. True) (always_failing NetworkRequestFailed) 0 = (2, Inl NetworkRequestFailed, 2)"
  by (simp add: mutate_def mutations_def run_attempts.simps always_failing_def)

section \<open>The request executor\<close>

text \<open>
  Claim C8, as amended. Every request that \<open>get\<close>, \<open>post\<close>, \<open>put\<close>, \<open>patch\<close>,
  \<open>delete\<close> and \<open>upload\<close> build carries the header
  \<open>Authorization: Bearer <accessToken>\<close> when the store holds a non-empty access token,
  and carries no \<open>Authorization\<close> header when the store holds no access token or the
  empty string.
\<close>

theorem bearer_header_when_token_truthy:
  "(storage st ''access_token'' = Some t \<and> t \<noteq> [] \<longrightarrow>
      authorization (get_request (new_ApiClient url) st endpoint params) = Some (''Bearer '' @ t) \<and>
      authorization (write_request method (new_ApiClient url) st endpoint d) = Some (''Bearer '' @ t) \<and>
      authorization (delete_request (new_ApiClient url) st endpoint) = Some (''Bearer '' @ t) \<and>
      map_of (upload_headers (storage st ''access_token'')) ''Authorization'' = Some (''Bearer '' @ t)) \<and>
   (storage st ''access_token'' = None \<or> storage st ''access_token'' = Some [] \<longrightarrow>
      authorization (get_request (new_ApiClient url) st endpoint params) = None \<and>
      authorization (write_request method (new_ApiClient url) st endpoint d) = None \<and>
      authorization (delete_request (new_ApiClient url) st endpoint) = None \<and>
      map_of (upload_headers (storage st ''access_token'')) ''Authorization'' = None)"
  by (auto simp add: authorization_def get_request_def write_request_def delete_request_def
        upload_headers_def getAuthHeaders_def getItem_def new_ApiClient_def)

theorem bearer_header_when_token_truthy_witness:
  "storage signed_in ''access_token'' = Some ''T1'' \<and>
   authorization (get_request example_client signed_in ''/accounts'' None) = Some ''Bearer T1'' \<and>
   storage \<lparr>storage = Map.empty, log = []\<rparr> ''access_token'' = None \<and>
   authorization
     (get_request example_client \<lparr>storage = Map.empty, log = []\<rparr> ''/accounts'' None) = None"
  using bearer_header_when_token_truthy
          [of signed_in "''T1''" "''https://api.mintflow.com''" "''/accounts''" None "''POST''" None]
        bearer_header_when_token_truthy
          [of "\<lparr>storage = Map.empty, log = []\<rparr>" "''T1''" "''https://api.mintflow.com''"
              "''/accounts''" None "''POST''" None]
  by (simp add: signed_in_def example_client_def)

text \<open>
  Claim C8 as stated asks for the header whenever an access token is present. The
  refresh path stores whatever string the refresh endpoint grants; when that is the empty
  string, the store holds an access token and the next request is sent without the
  header.
\<close>

theorem empty_token_counterexample:
  "storage (handleTokenExpiration example_client empty_token_server signed_in) ''access_token''
     = Some [] \<and>
   authorization
     (get_request example_client
        (handleTokenExpiration example_client empty_token_server signed_in)
        ''/accounts'' None) = None"
  by (simp add: handleTokenExpiration_def try_refresh_def getItem_def setItem_def fetch_def
        signed_in_def empty_token_server_def example_client_def new_ApiClient_def
        is_refresh_call_def refresh_request_def refresh_ok_def ok_def
        authorization_def get_request_def getAuthHeaders_def)

text \<open>
  Claim C7, as amended. A successful response declared as JSON whose body is not valid
  JSON makes \<open>handleResponse\<close> throw the parser's \<open>SyntaxError\<close> as it is: the
  failure is not swallowed, but it is not an \<open>ApiError\<close> either, so it carries no
  status and no classification. The state is left as it was. A successful response
  of any other content type is returned with its body as text, whatever the body is.
\<close>

theorem unparsable_json_propagates:
  assumes "ok response"
  shows "(truthy_str (content_type response) \<and>
          includes_str (the (content_type response)) ''application/json'' \<and>
          json_body response = None \<longrightarrow>
            handleResponse this net st response = (Inl SyntaxError, st)) \<and>
         (\<not> (truthy_str (content_type response) \<and>
             includes_str (the (content_type response)) ''application/json'') \<longrightarrow>
            handleResponse this net st response =
              (Inr \<lparr>data = JStr (text_body response), res_message = None,
                    res_status = http_status response\<rparr>, st))"
  using assms by (simp add: handleResponse_def read_body_def)

theorem unparsable_json_propagates_witness:
  "ok (malformed 200) \<and> truthy_str (content_type (malformed 200)) \<and>
   includes_str (the (content_type (malformed 200))) ''application/json'' \<and>
   json_body (malformed 200) = None \<and>
   handleResponse example_client expired_server signed_in (malformed 200) =
     (Inl SyntaxError, signed_in)"
proof -
  have h: "ok (malformed 200)" "truthy_str (content_type (malformed 200))"
    "includes_str (the (content_type (malformed 200))) ''application/json''"
    "json_body (malformed 200) = None"
    by (simp_all add: malformed_def ok_def)
  with unparsable_json_propagates
         [where response = "malformed 200" and this = example_client
            and net = expired_server and st = signed_in]
  show ?thesis by simp
qed

text \<open>
  Claim C7 as stated asks for a classified server error. For a 200 response with a JSON
  content type and a body that is not JSON, the caller receives the bare
  \<open>SyntaxError\<close>.
\<close>

theorem malformed_success_counterexample:
  "fst (handleResponse example_client expired_server signed_in (malformed 200)) = Inl SyntaxError"
  by (simp add: handleResponse_def read_body_def malformed_def)

section \<open>Token expiration\<close>

text \<open>
  Claim C10, as amended. When a 401 response is handled while the store holds no refresh
  token, no network call is made and the store is left as it is, the access token
  included; and when the body of the response has been read and the \<open>ApiError\<close> built
  from it, that error, with status 401, is what the caller receives.
\<close>

theorem no_refresh_token_no_refresh:
  assumes "http_status response = 401" and "storage st ''refresh_token'' = None"
  shows "snd (handleResponse this net st response) = st \<and>
         (read_body response = Inr d \<and> make_error response d = Inr e \<longrightarrow>
            handleResponse this net st response = (Inl (ApiErr e), st) \<and> status e = 401)"
  using assms
  by (auto simp add: handleResponse_def handleTokenExpiration_idle make_error_status not_ok_401
           split: sum.splits)

theorem no_refresh_token_no_refresh_witness:
  "http_status unauthorized = 401 \<and> storage no_refresh_token ''refresh_token'' = None \<and>
   read_body unauthorized = Inr (JObj [(''message'', JStr ''Token expired'')]) \<and>
   make_error unauthorized (JObj [(''message'', JStr ''Token expired'')]) =
     Inr \<lparr>message = JStr ''Token expired'', status = 401, code = None\<rparr> \<and>
   handleResponse example_client rejecting_server no_refresh_token unauthorized =
     (Inl (ApiErr \<lparr>message = JStr ''Token expired'', status = 401, code = None\<rparr>),
      no_refresh_token)"
proof -
  have h1: "http_status unauthorized = 401"
    by (simp add: unauthorized_def)
  have h2: "storage no_refresh_token ''refresh_token'' = None"
    by (simp add: no_refresh_token_def)
  have h3: "read_body unauthorized = Inr (JObj [(''message'', JStr ''Token expired'')])"
    by (simp add: read_body_def unauthorized_def)
  have h4: "make_error unauthorized (JObj [(''message'', JStr ''Token expired'')]) =
              Inr \<lparr>message = JStr ''Token expired'', status = 401, code = None\<rparr>"
    by (simp add: make_error_def unauthorized_def)
  from no_refresh_token_no_refresh
         [where this = example_client and net = rejecting_server
            and response = unauthorized and st = no_refresh_token
            and d = "JObj [(''message'', JStr ''Token expired'')]"
            and e = "\<lparr>message = JStr ''Token expired'', status = 401, code = None\<rparr>"]
       h1 h2 h3 h4
  show ?thesis by simp
qed

text \<open>
  Claim C10 as stated promises the 401 error for every 401 response. A 401 response
  with a JSON content type and a body that is not JSON throws the \<open>SyntaxError\<close> of
  the parser before any error object is built.
\<close>

theorem malformed_401_counterexample:
  "storage no_refresh_token ''refresh_token'' = None \<and>
   fst (handleResponse example_client rejecting_server no_refresh_token (malformed 401)) =
     Inl SyntaxError"
  by (simp add: handleResponse_def read_body_def malformed_def no_refresh_token_def)

text \<open>
  Claim C4. A refresh is attempted exactly when \<open>handleResponse\<close> reaches
  \<open>handleTokenExpiration\<close> with a non-empty refresh token in the store
  (\<open>refresh_attempt_iff\<close>): for a 401 response whose body has been read and whose
  \<open>ApiError\<close> has been built. When that refresh fails, whatever the way (\<open>fetch\<close>
  rejects, the endpoint answers with a status that is not ok, or the answer does not
  yield the tokens), then: the access token and the refresh token are removed from the
  store; exactly one call, the refresh, has been made; the caller receives the 401
  error, which the classifier types \<open>AUTH\<close> and \<open>shouldRetry\<close> never retries; and
  from the state reached, the handler makes no refresh call on any network.
\<close>

theorem failed_refresh_clears_store:
  assumes "http_status response = 401"
    and "read_body response = Inr d" and "make_error response d = Inr e"
    and "storage st ''refresh_token'' = Some rt" and "rt \<noteq> []"
    and "granted (net (length (log st)) (refresh_request this rt)) = None"
  shows "handleResponse this net st response =
           (Inl (ApiErr e),
            \<lparr>storage = multiRemove (storage st) credential_keys,
             log = log st @ [refresh_request this rt]\<rparr>) \<and>
         multiRemove (storage st) credential_keys ''access_token'' = None \<and>
         multiRemove (storage st) credential_keys ''refresh_token'' = None \<and>
         type (handleApiError now e) = AUTH \<and>
         \<not> shouldRetry (handleApiError now e) retryCount \<and>
         handleTokenExpiration this net'
           \<lparr>storage = multiRemove (storage st) credential_keys,
            log = log st @ [refresh_request this rt]\<rparr> =
           \<lparr>storage = multiRemove (storage st) credential_keys,
            log = log st @ [refresh_request this rt]\<rparr>"
proof -
  have cleared: "multiRemove (storage st) credential_keys ''access_token'' = None"
    "multiRemove (storage st) credential_keys ''refresh_token'' = None"
    by (simp_all add: multiRemove_def credential_keys_def)
  have "status e = 401"
    using assms(1,3) by (simp add: make_error_status)
  then have verdict: "type (handleApiError now e) = AUTH"
    "\<not> shouldRetry (handleApiError now e) retryCount"
    by (simp_all add: handleApiError_def shouldRetry_def)
  have "handleResponse this net st response =
          (Inl (ApiErr e), handleTokenExpiration this net st)"
    using assms(1-3) by (rule handleResponse_401)
  moreover have "handleTokenExpiration this net st =
          \<lparr>storage = multiRemove (storage st) credential_keys,
           log = log st @ [refresh_request this rt]\<rparr>"
    using assms(4-6) by (rule handleTokenExpiration_failed)
  ultimately show ?thesis
    using cleared verdict by (simp add: handleTokenExpiration_idle)
qed

theorem failed_refresh_clears_store_witness:
  "http_status unauthorized = 401 \<and>
   storage signed_in ''refresh_token'' = Some ''R1'' \<and>
   granted (rejecting_server (length (log signed_in)) (refresh_request example_client ''R1'')) = None \<and>
   fst (handleResponse example_client rejecting_server signed_in unauthorized) =
     Inl (ApiErr \<lparr>message = JStr ''Token expired'', status = 401, code = None\<rparr>) \<and>
   storage (snd (handleResponse example_client rejecting_server signed_in unauthorized))
     ''access_token'' = None \<and>
   storage (snd (handleResponse example_client rejecting_server signed_in unauthorized))
     ''refresh_token'' = None \<and>
   log (snd (handleResponse example_client rejecting_server signed_in unauthorized)) =
     [refresh_request example_client ''R1'']"
proof -
  have h1: "http_status unauthorized = 401"
    by (simp add: unauthorized_def)
  have h2: "read_body unauthorized = Inr (JObj [(''message'', JStr ''Token expired'')])"
    by (simp add: read_body_def unauthorized_def)
  have h3: "make_error unauthorized (JObj [(''message'', JStr ''Token expired'')]) =
              Inr \<lparr>message = JStr ''Token expired'', status = 401, code = None\<rparr>"
    by (simp add: make_error_def unauthorized_def)
  have h4: "storage signed_in ''refresh_token'' = Some ''R1''"
    by (simp add: signed_in_def)
  have h5: "''R1'' \<noteq> []" by simp
  have h6: "granted (rejecting_server (length (log signed_in))
              (refresh_request example_client ''R1'')) = None"
    by (simp add: rejecting_server_def unauthorized_def ok_def)
  have "log signed_in = []"
    by (simp add: signed_in_def)
  with failed_refresh_clears_store
         [where now = 0 and retryCount = 0 and net' = rejecting_server
            and net = rejecting_server and this = example_client and st = signed_in
            and response = unauthorized and rt = "''R1''"
            and d = "JObj [(''message'', JStr ''Token expired'')]"
            and e = "\<lparr>message = JStr ''Token expired'', status = 401, code = None\<rparr>"]
       h1 h2 h3 h4 h5 h6
  show ?thesis by simp
qed

text \<open>
  Claim C1, as amended. When a request receives a 401 response and the refresh that
  follows succeeds, the granted access token (and the rotated refresh token, when one
  is granted) is written to the store, the request is not sent again (the calls made are
  the request and the refresh, in that order), and the caller receives the error of the
  401 response. This holds for every method, since each ends in
  \<open>fetch_then_handle\<close>.
\<close>

theorem refreshed_but_not_resent:
  assumes "net (length (log st)) req = Resp response"
    and "http_status response = 401"
    and "read_body response = Inr d" and "make_error response d = Inr e"
    and "storage st ''refresh_token'' = Some rt" and "rt \<noteq> []"
    and "granted (net (Suc (length (log st))) (refresh_request this rt)) = Some (access, rotated)"
  shows "fetch_then_handle this net st req =
           (Inl (ApiErr e),
            \<lparr>storage =
               (case rotated of
                  None \<Rightarrow> (storage st)(''access_token'' \<mapsto> access)
                | Some r \<Rightarrow> (storage st)(''access_token'' \<mapsto> access, ''refresh_token'' \<mapsto> r)),
             log = log st @ [req, refresh_request this rt]\<rparr>) \<and>
         status e = 401"
proof -
  let ?st1 = "st\<lparr>log := log st @ [req]\<rparr>"
  have sent: "fetch_then_handle this net st req = handleResponse this net ?st1 response"
    using assms(1) by (simp add: fetch_then_handle_def fetch_def resume_def)
  have thrown: "handleResponse this net ?st1 response =
                  (Inl (ApiErr e), handleTokenExpiration this net ?st1)"
    using assms(2-4) by (rule handleResponse_401)
  have "handleTokenExpiration this net ?st1 =
          \<lparr>storage =
             (case rotated of
                None \<Rightarrow> (storage ?st1)(''access_token'' \<mapsto> access)
              | Some r \<Rightarrow> (storage ?st1)(''access_token'' \<mapsto> access, ''refresh_token'' \<mapsto> r)),
           log = log ?st1 @ [refresh_request this rt]\<rparr>"
    using assms(5-7) by (intro handleTokenExpiration_granted) simp_all
  with sent thrown assms(2,4) show ?thesis
    by (cases rotated) (simp_all add: make_error_status)
qed

theorem refreshed_but_not_resent_witness:
  "expired_server (length (log signed_in)) (get_request example_client signed_in ''/accounts'' None)
     = Resp unauthorized \<and>
   http_status unauthorized = 401 \<and>
   storage signed_in ''refresh_token'' = Some ''R1'' \<and>
   granted (expired_server (Suc (length (log signed_in))) (refresh_request example_client ''R1''))
     = Some (''T2'', None) \<and>
   get example_client expired_server signed_in ''/accounts'' None =
     (Inl (ApiErr \<lparr>message = JStr ''Token expired'', status = 401, code = None\<rparr>),
      \<lparr>storage = (storage signed_in)(''access_token'' \<mapsto> ''T2''),
       log = [get_request example_client signed_in ''/accounts'' None,
              refresh_request example_client ''R1'']\<rparr>)"
proof -
  have h1: "expired_server (length (log signed_in))
              (get_request example_client signed_in ''/accounts'' None) = Resp unauthorized"
    by (simp add: expired_server_def is_refresh_call_def get_request_def example_client_def
          new_ApiClient_def getAuthHeaders_def getItem_def signed_in_def)
  have h2: "http_status unauthorized = 401"
    by (simp add: unauthorized_def)
  have h3: "read_body unauthorized = Inr (JObj [(''message'', JStr ''Token expired'')])"
    by (simp add: read_body_def unauthorized_def)
  have h4: "make_error unauthorized (JObj [(''message'', JStr ''Token expired'')]) =
              Inr \<lparr>message = JStr ''Token expired'', status = 401, code = None\<rparr>"
    by (simp add: make_error_def unauthorized_def)
  have h5: "storage signed_in ''refresh_token'' = Some ''R1''"
    by (simp add: signed_in_def)
  have h6: "''R1'' \<noteq> []" by simp
  have h7: "granted (expired_server (Suc (length (log signed_in)))
              (refresh_request example_client ''R1'')) = Some (''T2'', None)"
    by (simp add: expired_server_def is_refresh_call_def refresh_request_def refresh_ok_def
          ok_def)
  have "log signed_in = []"
    by (simp add: signed_in_def)
  with refreshed_but_not_resent
         [where net = expired_server and st = signed_in and this = example_client
            and req = "get_request example_client signed_in ''/accounts'' None"
            and response = unauthorized and rt = "''R1''"
            and d = "JObj [(''message'', JStr ''Token expired'')]"
            and e = "\<lparr>message = JStr ''Token expired'', status = 401, code = None\<rparr>"
            and access = "''T2''" and rotated = None]
       h1 h2 h3 h4 h5 h6 h7
  show ?thesis by (simp add: get_def)
qed

text \<open>
  Claim C1 as stated promises a second attempt whose outcome the caller sees. In the
  scenario of the spec (\<open>GET /accounts\<close> answered 401, a refresh that grants \<open>T2\<close>,
  a server that answers 200 to \<open>Bearer T2\<close>) the caller receives the 401 error, the
  log holds the request and the refresh only, and the request rebuilt from the new
  state would have been answered 200.
\<close>

theorem retry_after_refresh_counterexample:
  "fst (get example_client expired_server signed_in ''/accounts'' None) =
     Inl (ApiErr \<lparr>message = JStr ''Token expired'', status = 401, code = None\<rparr>) \<and>
   log (snd (get example_client expired_server signed_in ''/accounts'' None)) =
     [get_request example_client signed_in ''/accounts'' None,
      refresh_request example_client ''R1''] \<and>
   storage (snd (get example_client expired_server signed_in ''/accounts'' None))
     ''access_token'' = Some ''T2'' \<and>
   expired_server 2
     (get_request example_client
        (snd (get example_client expired_server signed_in ''/accounts'' None))
        ''/accounts'' None) = Resp accounts_ok"
  by (simp add: get_def fetch_then_handle_def fetch_def resume_def handleResponse_def
        read_body_def make_error_def ok_def handleTokenExpiration_def try_refresh_def
        getItem_def setItem_def expired_server_def is_refresh_call_def refresh_request_def
        refresh_ok_def unauthorized_def get_request_def getAuthHeaders_def example_client_def
        new_ApiClient_def signed_in_def)

section \<open>Calls in flight together and the refresh endpoint\<close>

text \<open>
  Claim C2, as amended. The client has no shared in-flight refresh: every call that
  receives a 401 response issues its own call of the refresh endpoint. When N requests
  are in flight together, each receives a 401 response, a refresh token is stored, every
  refresh succeeds and the responses are handled one after the other, exactly N refresh
  calls are made, and each of the N callers receives its 401 error.
\<close>

theorem every_401_refreshes_on_its_own:
  assumes "list_all received_401 (fst (send_all net st reqs))"
    and "truthy_str (storage st ''refresh_token'')"
    and "\<forall>i rt. granted (net i (refresh_request this rt)) \<noteq> None"
  shows "refresh_calls this (log (snd (in_flight_together this net st reqs))) =
           refresh_calls this (log st @ reqs) + length reqs \<and>
         list_all is_401_error (fst (in_flight_together this net st reqs))"
proof -
  let ?sent = "send_all net st reqs"
  have st1: "snd ?sent = st\<lparr>log := log st @ reqs\<rparr>"
    by (rule send_all_state)
  have len: "length (fst ?sent) = length reqs"
    by (induction reqs arbitrary: st) (simp_all add: case_prod_unfold)
  have "truthy_str (storage (snd ?sent) ''refresh_token'')"
    using assms(2) st1 by simp
  from resume_all_refreshes [OF assms(3) assms(1) this] st1 len show ?thesis
    by (simp add: in_flight_together_def case_prod_unfold)
qed

theorem every_401_refreshes_on_its_own_witness:
  "list_all received_401 (fst (send_all expired_server signed_in two_requests)) \<and>
   truthy_str (storage signed_in ''refresh_token'') \<and>
   (\<forall>i rt. granted (expired_server i (refresh_request example_client rt)) \<noteq> None) \<and>
   refresh_calls example_client
     (log (snd (in_flight_together example_client expired_server signed_in two_requests))) = 2 \<and>
   list_all is_401_error
     (fst (in_flight_together example_client expired_server signed_in two_requests))"
proof -
  have h1: "list_all received_401 (fst (send_all expired_server signed_in two_requests))"
    by (simp add: two_requests_def fetch_def expired_server_def is_refresh_call_def
          get_request_def example_client_def new_ApiClient_def getAuthHeaders_def getItem_def
          signed_in_def unauthorized_def read_body_def make_error_def)
  have h2: "truthy_str (storage signed_in ''refresh_token'')"
    by (simp add: signed_in_def)
  have h3: "\<forall>i rt. granted (expired_server i (refresh_request example_client rt)) \<noteq> None"
    by (simp add: expired_server_def refresh_ok_def ok_def is_refresh_call_refresh_request)
  have "refresh_calls example_client (log signed_in @ two_requests) = 0"
    by (simp add: refresh_calls_def signed_in_def two_requests_def is_refresh_call_def
          get_request_def example_client_def new_ApiClient_def)
  with every_401_refreshes_on_its_own
         [where net = expired_server and st = signed_in and reqs = two_requests
            and this = example_client] h1 h2 h3
  show ?thesis by (simp add: two_requests_def)
qed

text \<open>
  Claim C2 as stated allows at most one refresh call. Two requests in flight together
  that each receive a 401 response leave two refresh calls in the log.
\<close>

theorem two_refresh_calls_counterexample:
  "list_all received_401 (fst (send_all expired_server signed_in two_requests)) \<and>
   refresh_calls example_client
     (log (snd (in_flight_together example_client expired_server signed_in two_requests))) = 2"
  by (simp add: in_flight_together_def two_requests_def fetch_def resume_def
        handleResponse_def read_body_def make_error_def ok_def handleTokenExpiration_def
        try_refresh_def getItem_def setItem_def expired_server_def is_refresh_call_def
        refresh_request_def refresh_ok_def unauthorized_def get_request_def getAuthHeaders_def
        example_client_def new_ApiClient_def signed_in_def refresh_calls_def)

end
